theory Spec2Isabelle
  imports Main "HOL-Library.Char_ord" "HOL-Library.List_Lexorder" "HOL-Library.Multiset"
begin

section \<open>The JavaScript runtime, as far as alpha.js uses it\<close>

text \<open>
  alpha.js runs on Node. Its logic rests on the built-in \<^verbatim>\<open>Date\<close>, \<^verbatim>\<open>Number\<close>,
  \<^verbatim>\<open>String.prototype.split\<close>, \<^verbatim>\<open>localeCompare\<close>, \<^verbatim>\<open>Array.prototype.sort\<close> and
  \<^verbatim>\<open>JSON.stringify\<close>. This section models them after ECMAScript (ECMA-262, the chapters
  on Date objects and on StringToNumber).

  JavaScript numbers are doubles. Every number of this program is an integer (a count of
  milliseconds, an hour, a minute), and doubles are exact on integers below \<open>2 ^ 53\<close>, so
  the model computes in \<open>int\<close>. A time value is \<open>int option\<close>: \<open>None\<close> is the NaN of an
  Invalid Date.
\<close>

subsection \<open>The host\<close>

text \<open>
  What ECMAScript leaves to the host or to the implementation is a parameter of the model:
  \<^item> \<open>tzMinutes\<close>: the local time zone, as minutes east of UTC (a fixed offset; daylight
    saving changes are not modelled);
  \<^item> \<open>legacyParse\<close>: what \<^verbatim>\<open>Date.parse\<close> answers on a string that is not in one of the
    two ISO forms written out below (ECMAScript lets an implementation fall back to
    heuristics of its own there);
  \<^item> \<open>numberOther\<close>: what \<^verbatim>\<open>Number\<close> answers on a string that is neither empty nor a
    plain run of decimal digits (signs, fractions, exponents, hexadecimal literals,
    white space, \<^verbatim>\<open>Infinity\<close>);
  \<^item> \<open>collationKey\<close>: the sort key that the collation of the host's locale gives a
    string. \<^verbatim>\<open>localeCompare\<close> compares two strings as their sort keys compare, item by
    item; two different strings can have one key.
\<close>

datatype jsnum = NaN | Infinite | Fin int

text \<open>
  \<open>Fin n\<close> is a finite number whose integer part is \<open>n\<close> (the only readers of these
  numbers, the arguments of \<^verbatim>\<open>setHours\<close>, truncate them first); \<open>Infinite\<close> is either
  infinity.
\<close>

record host =
  tzMinutes :: int
  legacyParse :: "string \<Rightarrow> int option"
  numberOther :: "string \<Rightarrow> jsnum"
  collationKey :: "string \<Rightarrow> nat list"

datatype js_error = RangeError | TypeError | UpstreamError string | Wrapped js_error

subsection \<open>Time values\<close>

definition msPerDay :: int where
  "msPerDay = 86400000"

definition msPerHour :: int where
  "msPerHour = 3600000"

definition msPerMinute :: int where
  "msPerMinute = 60000"

definition msPerSecond :: int where
  "msPerSecond = 1000"

definition Day :: "int \<Rightarrow> int" where
  "Day t = t div msPerDay"

definition HourFromTime :: "int \<Rightarrow> int" where
  "HourFromTime t = (t div msPerHour) mod 24"

definition MinFromTime :: "int \<Rightarrow> int" where
  "MinFromTime t = (t div msPerMinute) mod 60"

definition SecFromTime :: "int \<Rightarrow> int" where
  "SecFromTime t = (t div msPerSecond) mod 60"

definition msFromTime :: "int \<Rightarrow> int" where
  "msFromTime t = t mod msPerSecond"

definition LocalTime :: "'a host_scheme \<Rightarrow> int \<Rightarrow> int" where
  "LocalTime h t = t + tzMinutes h * msPerMinute"

definition UTC :: "'a host_scheme \<Rightarrow> int \<Rightarrow> int" where
  "UTC h t = t - tzMinutes h * msPerMinute"

definition TimeClip :: "int \<Rightarrow> int option" where
  "TimeClip t = (if \<bar>t\<bar> \<le> 8640000000000000 then Some t else None)"

definition MakeTime :: "jsnum \<Rightarrow> jsnum \<Rightarrow> jsnum \<Rightarrow> jsnum \<Rightarrow> int option" where
  "MakeTime hour minute sec ms =
     (case (hour, minute, sec, ms) of
        (Fin hh, Fin mm, Fin ss, Fin milli) \<Rightarrow>
          Some (hh * msPerHour + mm * msPerMinute + ss * msPerSecond + milli)
      | _ \<Rightarrow> None)"

definition MakeDate :: "int \<Rightarrow> int \<Rightarrow> int" where
  "MakeDate dy tm = dy * msPerDay + tm"

text \<open>
  The proleptic Gregorian calendar. \<open>DaysFromCivil y m d\<close> is the day number (days since
  1970-01-01) of day \<open>d\<close> of month \<open>m\<close> (1 to 12) of year \<open>y\<close>; a day of the month beyond
  the month's length runs over into the next month, as \<^verbatim>\<open>MakeDay\<close> has it.
  \<open>CivilFromDays\<close> is its inverse, \<^verbatim>\<open>YearFromTime\<close>, \<^verbatim>\<open>MonthFromTime\<close> and
  \<^verbatim>\<open>DateFromTime\<close> in one.
\<close>

definition DaysFromCivil :: "int \<Rightarrow> int \<Rightarrow> int \<Rightarrow> int" where
  "DaysFromCivil y m d =
     (let y' = (if m \<le> 2 then y - 1 else y);
          era = y' div 400;
          yoe = y' mod 400;
          doy = (153 * (if m > 2 then m - 3 else m + 9) + 2) div 5 + d - 1;
          doe = yoe * 365 + yoe div 4 - yoe div 100 + doy
      in era * 146097 + doe - 719468)"

definition MakeDay :: "int \<Rightarrow> int \<Rightarrow> int \<Rightarrow> int" where
  "MakeDay yr month0 dt = DaysFromCivil (yr + month0 div 12) (month0 mod 12 + 1) 1 + dt - 1"

definition CivilFromDays :: "int \<Rightarrow> int \<times> int \<times> int" where
  "CivilFromDays z =
     (let z' = z + 719468;
          era = z' div 146097;
          doe = z' mod 146097;
          yoe = (doe - doe div 1460 + doe div 36524 - doe div 146096) div 365;
          doy = doe - (365 * yoe + yoe div 4 - yoe div 100);
          mp = (5 * doy + 2) div 153;
          d = doy - (153 * mp + 2) div 5 + 1;
          m = (if mp < 10 then mp + 3 else mp - 9);
          y = yoe + era * 400
      in ((if m \<le> 2 then y + 1 else y), m, d))"

subsection \<open>Strings of digits\<close>

fun indexOf :: "'a \<Rightarrow> 'a list \<Rightarrow> nat option" where
  "indexOf c [] = None"
| "indexOf c (x # xs) = (if c = x then Some 0 else map_option Suc (indexOf c xs))"

definition digitVal :: "char \<Rightarrow> nat option" where
  "digitVal c = indexOf c ''0123456789''"

fun decimalFrom :: "nat \<Rightarrow> string \<Rightarrow> nat option" where
  "decimalFrom acc [] = Some acc"
| "decimalFrom acc (c # cs) =
     (case digitVal c of None \<Rightarrow> None | Some d \<Rightarrow> decimalFrom (10 * acc + d) cs)"

definition decimal :: "string \<Rightarrow> nat option" where
  "decimal s = (if s = [] then None else decimalFrom 0 s)"

primrec pad :: "nat \<Rightarrow> nat \<Rightarrow> string" where
  "pad 0 n = []"
| "pad (Suc k) n = pad k (n div 10) @ [''0123456789'' ! (n mod 10)]"

text \<open>
  \<open>decimal s\<close> reads a non-empty run of decimal digits; \<open>pad k n\<close> writes the last \<open>k\<close>
  decimal digits of \<open>n\<close>, with leading zeros.
\<close>

subsection \<open>Number, applied to a string\<close>

definition Number :: "'a host_scheme \<Rightarrow> string \<Rightarrow> jsnum" where
  "Number h s =
     (if s = [] then Fin 0
      else case decimal s of Some n \<Rightarrow> Fin (int n) | None \<Rightarrow> numberOther h s)"

subsection \<open>Date.parse and the Date constructor on a string\<close>

text \<open>
  The two forms of the ECMAScript date time string format that the program builds:
  \<^verbatim>\<open>YYYY-MM-DD\<close>, read as UTC, and \<^verbatim>\<open>YYYY-MM-DDTHH:mm\<close>, read as local time. The
  month is 01 to 12 and the day 01 to 31 (V8 takes a day up to 31 in every month and
  lets \<^verbatim>\<open>MakeDay\<close> carry it over); the hour is 00 to 23, or 24 with minute 00; the
  minute is 00 to 59. Every other string goes to the host's \<open>legacyParse\<close>.
\<close>

definition isoDate :: "string \<Rightarrow> (int \<times> int \<times> int) option" where
  "isoDate s =
     (if length s = 10 \<and> s ! 4 = CHR ''-'' \<and> s ! 7 = CHR ''-'' then
        (case (decimal (take 4 s), decimal (take 2 (drop 5 s)), decimal (drop 8 s)) of
           (Some y, Some m, Some d) \<Rightarrow>
             (if 1 \<le> m \<and> m \<le> 12 \<and> 1 \<le> d \<and> d \<le> 31 then Some (int y, int m, int d)
              else None)
         | _ \<Rightarrow> None)
      else None)"

definition isoTime :: "string \<Rightarrow> (int \<times> int) option" where
  "isoTime s =
     (if length s = 5 \<and> s ! 2 = CHR '':'' then
        (case (decimal (take 2 s), decimal (drop 3 s)) of
           (Some hh, Some mm) \<Rightarrow>
             (if (hh \<le> 23 \<and> mm \<le> 59) \<or> (hh = 24 \<and> mm = 0) then Some (int hh, int mm)
              else None)
         | _ \<Rightarrow> None)
      else None)"

definition Date_parse :: "'a host_scheme \<Rightarrow> string \<Rightarrow> int option" where
  "Date_parse h s =
     (case (if length s = 10 then
              (case isoDate s of
                 Some (y, m, d) \<Rightarrow> Some (MakeDate (MakeDay y (m - 1) d) 0)
               | None \<Rightarrow> None)
            else if length s = 16 \<and> s ! 10 = CHR ''T'' then
              (case (isoDate (take 10 s), isoTime (drop 11 s)) of
                 (Some (y, m, d), Some (hh, mm)) \<Rightarrow>
                   Some (UTC h (MakeDate (MakeDay y (m - 1) d)
                                  (hh * msPerHour + mm * msPerMinute)))
               | _ \<Rightarrow> None)
            else None) of
        Some t \<Rightarrow> TimeClip t
      | None \<Rightarrow> Option.bind (legacyParse h s) TimeClip)"

subsection \<open>Date methods\<close>

text \<open>
  \<^verbatim>\<open>setHours(hour [, min [, sec [, ms]]])\<close>: an argument that is not given is \<open>None\<close> and
  keeps the field of the local time. The day is the local day of the old time value.
\<close>

definition setHours ::
  "'a host_scheme \<Rightarrow> int option \<Rightarrow> jsnum \<Rightarrow> jsnum option \<Rightarrow> jsnum option \<Rightarrow> jsnum option \<Rightarrow> int option"
where
  "setHours h tv hour minute sec ms =
     (case tv of
        None \<Rightarrow> None
      | Some t0 \<Rightarrow>
          (let t = LocalTime h t0;
               m = (case minute of None \<Rightarrow> Fin (MinFromTime t) | Some x \<Rightarrow> x);
               s = (case sec of None \<Rightarrow> Fin (SecFromTime t) | Some x \<Rightarrow> x);
               milli = (case ms of None \<Rightarrow> Fin (msFromTime t) | Some x \<Rightarrow> x)
           in case MakeTime hour m s milli of
                None \<Rightarrow> None
              | Some tm \<Rightarrow> TimeClip (UTC h (MakeDate (Day t) tm))))"

definition getHours :: "'a host_scheme \<Rightarrow> int option \<Rightarrow> jsnum" where
  "getHours h tv = (case tv of None \<Rightarrow> NaN | Some t \<Rightarrow> Fin (HourFromTime (LocalTime h t)))"

definition numPlus :: "jsnum \<Rightarrow> int \<Rightarrow> jsnum" where
  "numPlus x k = (case x of Fin n \<Rightarrow> Fin (n + k) | _ \<Rightarrow> x)"

text \<open>
  \<^verbatim>\<open>toISOString\<close> writes the UTC fields as \<^verbatim>\<open>YYYY-MM-DDTHH:mm:ss.sssZ\<close> (a year outside
  0 to 9999 with a sign and six digits) and throws a RangeError on an Invalid Date.
\<close>

definition isoYear :: "int \<Rightarrow> string" where
  "isoYear y =
     (if 0 \<le> y \<and> y \<le> 9999 then pad 4 (nat y)
      else (if y < 0 then ''-'' else ''+'') @ pad 6 (nat \<bar>y\<bar>))"

definition isoString :: "int \<Rightarrow> string" where
  "isoString t =
     (case CivilFromDays (Day t) of
        (y, m, d) \<Rightarrow>
          isoYear y @ ''-'' @ pad 2 (nat m) @ ''-'' @ pad 2 (nat d) @ ''T''
          @ pad 2 (nat (HourFromTime t)) @ '':'' @ pad 2 (nat (MinFromTime t))
          @ '':'' @ pad 2 (nat (SecFromTime t)) @ ''.'' @ pad 3 (nat (msFromTime t))
          @ ''Z'')"

definition toISOString :: "int option \<Rightarrow> js_error + string" where
  "toISOString tv = (case tv of None \<Rightarrow> Inl RangeError | Some t \<Rightarrow> Inr (isoString t))"

text \<open>
  \<^verbatim>\<open>toTimeString\<close> writes the local clock as \<^verbatim>\<open>HH:mm:ss GMT+hhmm\<close>, and the name of the
  time zone in parentheses after it, which the model leaves out: the program reads the
  first five characters only. On an Invalid Date the string is \<^verbatim>\<open>Invalid Date\<close>.
\<close>

definition toTimeString :: "'a host_scheme \<Rightarrow> int option \<Rightarrow> string" where
  "toTimeString h tv =
     (case tv of
        None \<Rightarrow> ''Invalid Date''
      | Some t0 \<Rightarrow>
          (let t = LocalTime h t0; z = tzMinutes h
           in pad 2 (nat (HourFromTime t)) @ '':'' @ pad 2 (nat (MinFromTime t)) @ '':''
              @ pad 2 (nat (SecFromTime t)) @ '' GMT'' @ (if z < 0 then ''-'' else ''+'')
              @ pad 2 (nat (\<bar>z\<bar> div 60)) @ pad 2 (nat (\<bar>z\<bar> mod 60))))"

text \<open>Relational operators on Date objects compare time values; with a NaN they are false.\<close>

definition dateLess :: "int option \<Rightarrow> int option \<Rightarrow> bool" where
  "dateLess a b = (case (a, b) of (Some x, Some y) \<Rightarrow> x < y | _ \<Rightarrow> False)"

definition dateLessEq :: "int option \<Rightarrow> int option \<Rightarrow> bool" where
  "dateLessEq a b = (case (a, b) of (Some x, Some y) \<Rightarrow> x \<le> y | _ \<Rightarrow> False)"

definition dateStrictEq :: "int option \<Rightarrow> int option \<Rightarrow> bool" where
  "dateStrictEq a b = (case (a, b) of (Some x, Some y) \<Rightarrow> x = y | _ \<Rightarrow> False)"

subsection \<open>String.prototype.split\<close>

fun splitOn :: "char \<Rightarrow> string \<Rightarrow> string list" where
  "splitOn c [] = [[]]"
| "splitOn c (x # xs) =
     (if x = c then [] # splitOn c xs
      else (case splitOn c xs of [] \<Rightarrow> [[x]] | p # ps \<Rightarrow> (x # p) # ps))"


definition nthOpt :: "'a list \<Rightarrow> nat \<Rightarrow> 'a option" where
  "nthOpt xs i = (if i < length xs then Some (xs ! i) else None)"

text \<open>
  \<open>splitOn c s\<close> is \<^verbatim>\<open>s.split(c)\<close>; \<open>nthOpt xs i\<close> is the element a destructuring
  pattern binds at position \<open>i\<close>, \<^verbatim>\<open>undefined\<close> (\<open>None\<close>) beyond the end.
\<close>

section \<open>Events\<close>

text \<open>
  The value of a property that holds a string when it is there: the property can be
  absent (reading it gives \<^verbatim>\<open>undefined\<close>), null, or a string.
\<close>

datatype jsstr = Undefined | Null | Str string

text \<open>
  An event of the feed. The other properties of the object are the record's extension and
  pass through every operation. \<open>phase\<close> is \<open>None\<close> when the property is not a number.
\<close>

record airdrop =
  token :: jsstr
  phase :: "int option"
  date :: jsstr
  time :: jsstr
  status :: jsstr
  original_status :: jsstr

definition truthy :: "jsstr \<Rightarrow> bool" where
  "truthy v = (case v of Str s \<Rightarrow> s \<noteq> [] | _ \<Rightarrow> False)"

definition strOf :: "jsstr \<Rightarrow> string" where
  "strOf v = (case v of Str s \<Rightarrow> s | _ \<Rightarrow> [])"

definition orZero :: "jsnum option \<Rightarrow> jsnum" where
  "orZero v = (case v of None \<Rightarrow> Fin 0 | Some NaN \<Rightarrow> Fin 0 | Some x \<Rightarrow> x)"

text \<open>
  \<open>truthy v\<close> is the truth value of a string property in a condition (absent, null and the
  empty string are false); \<open>strOf v\<close> is the string behind a truthy property and also
  \<^verbatim>\<open>v || ''\<close>; \<open>orZero v\<close> is \<^verbatim>\<open>v || 0\<close>.
\<close>

section \<open>processAirdropStatus\<close>

text \<open>Lines 52 to 60: the events of phase 2 are moved by 18 hours.\<close>

definition timeShift :: "'h host_scheme \<Rightarrow> 'a airdrop_scheme \<Rightarrow> js_error + 'a airdrop_scheme" where
  "timeShift h processedAirdrop =
     (if phase processedAirdrop = Some 2 then
        (if truthy (date processedAirdrop) then
           (let baseDate0 =
                  Date_parse h
                    (strOf (date processedAirdrop)
                     @ (if truthy (time processedAirdrop) then ''T'' @ strOf (time processedAirdrop)
                        else ''T00:00''));
                baseDate = setHours h baseDate0 (numPlus (getHours h baseDate0) 18) None None None
            in case toISOString baseDate of
                 Inl e \<Rightarrow> Inl e
               | Inr stamp \<Rightarrow>
                   Inr (processedAirdrop
                        \<lparr>date := Str (take 10 stamp),
                         time := Str (take 5 (toTimeString h baseDate))\<rparr>))
         else Inr processedAirdrop)
      else Inr processedAirdrop)"

text \<open>
  Lines 63 to 89. \<open>today\<close> is the Date of line 45 after line 46, \<open>now\<close> the instant of the
  \<^verbatim>\<open>new Date()\<close> of line 74, and \<open>upstream\<close> is \<^verbatim>\<open>airdrop.status\<close>, the status of the
  event as it came in.
\<close>

definition setStatus :: "string \<Rightarrow> jsstr \<Rightarrow> 'a airdrop_scheme \<Rightarrow> 'a airdrop_scheme" where
  "setStatus s upstream processedAirdrop =
     processedAirdrop\<lparr>status := Str s, original_status := upstream\<rparr>"

definition midnight :: "'h host_scheme \<Rightarrow> int option \<Rightarrow> int option" where
  "midnight h tv = setHours h tv (Fin 0) (Some (Fin 0)) (Some (Fin 0)) (Some (Fin 0))"

definition statusStage ::
  "'h host_scheme \<Rightarrow> int option \<Rightarrow> int \<Rightarrow> jsstr \<Rightarrow> 'a airdrop_scheme \<Rightarrow> 'a airdrop_scheme"
where
  "statusStage h today now upstream processedAirdrop =
     (if truthy (date processedAirdrop) then
        (let airdropDate = midnight h (Date_parse h (strOf (date processedAirdrop)))
         in if dateLess airdropDate today then
              setStatus ''completed'' upstream processedAirdrop
            else if dateStrictEq airdropDate today then
              (if truthy (time processedAirdrop) then
                 (let parts = map (Number h) (splitOn CHR '':'' (strOf (time processedAirdrop)));
                      hours = nthOpt parts 0;
                      minutes = nthOpt parts 1;
                      airdropDateTime =
                        setHours h (Date_parse h (strOf (date processedAirdrop)))
                          (orZero hours) (Some (orZero minutes)) (Some (Fin 0)) (Some (Fin 0))
                  in if dateLessEq airdropDateTime (Some now) then
                       setStatus ''completed'' upstream processedAirdrop
                     else setStatus ''announced'' upstream processedAirdrop)
               else setStatus ''announced'' upstream processedAirdrop)
            else setStatus ''announced'' upstream processedAirdrop)
      else processedAirdrop)"

text \<open>The callback of the \<^verbatim>\<open>map\<close> of line 48, and the function itself.\<close>

definition processAirdrop ::
  "'h host_scheme \<Rightarrow> int option \<Rightarrow> int \<Rightarrow> 'a airdrop_scheme \<Rightarrow> js_error + 'a airdrop_scheme"
where
  "processAirdrop h today now airdrop =
     (case timeShift h airdrop of
        Inl e \<Rightarrow> Inl e
      | Inr processedAirdrop \<Rightarrow> Inr (statusStage h today now (status airdrop) processedAirdrop))"

fun mapE :: "('a \<Rightarrow> 'e + 'b) \<Rightarrow> 'a list \<Rightarrow> 'e + 'b list" where
  "mapE f [] = Inr []"
| "mapE f (x # xs) =
     (case f x of
        Inl e \<Rightarrow> Inl e
      | Inr y \<Rightarrow> (case mapE f xs of Inl e \<Rightarrow> Inl e | Inr ys \<Rightarrow> Inr (y # ys)))"

definition processAirdropStatus ::
  "'h host_scheme \<Rightarrow> int \<Rightarrow> 'a airdrop_scheme list \<Rightarrow> js_error + 'a airdrop_scheme list"
where
  "processAirdropStatus h now airdrops =
     (let today = midnight h (Some now)
      in mapE (processAirdrop h today now) airdrops)"

text \<open>
  \<open>mapE\<close> is \<^verbatim>\<open>Array.prototype.map\<close> with a callback that can throw: the first exception
  ends the call. The function reads the clock at line 45 and again at line 74 for every
  event of today; the model takes both readings at the one instant \<open>now\<close> at which the
  resolver is evaluated.
\<close>


section \<open>The order of the events\<close>

text \<open>
  \<^verbatim>\<open>localeCompare\<close> follows the collation of the host's locale: it compares the sort
  keys of the two strings. The order is not the order of the strings character by
  character: the collation of V8 puts the colon before the digits, and gives some
  characters no weight at all.
\<close>

definition localeCompare :: "'h host_scheme \<Rightarrow> string \<Rightarrow> string \<Rightarrow> int" where
  "localeCompare h a b =
     (if collationKey h a < collationKey h b then - 1
      else if collationKey h a = collationKey h b then 0
      else 1)"

text \<open>The comparator of lines 120 to 132.\<close>

definition compareAirdrops :: "'h host_scheme \<Rightarrow> 'a airdrop_scheme \<Rightarrow> 'a airdrop_scheme \<Rightarrow> int" where
  "compareAirdrops h a b =
     (let dateA = strOf (date a);
          dateB = strOf (date b)
      in if dateA \<noteq> dateB then localeCompare h dateB dateA
         else if \<not> truthy (time a) \<and> truthy (time b) then - 1
         else if truthy (time a) \<and> \<not> truthy (time b) then 1
         else if truthy (time a) \<and> truthy (time b) then
           localeCompare h (strOf (time b)) (strOf (time a))
         else 0)"

text \<open>
  \<^verbatim>\<open>Array.prototype.sort\<close> is stable (ECMAScript 2019; Node 11 and later). With a
  consistent comparator its result is the one stable sorted arrangement of the array,
  which the model builds by insertion: an element goes in front of the first element of
  the sorted rest that it does not have to follow. The comparator of this program is
  consistent on every array in which different date strings have different sort keys.
\<close>

fun insertBy :: "('a \<Rightarrow> 'a \<Rightarrow> int) \<Rightarrow> 'a \<Rightarrow> 'a list \<Rightarrow> 'a list" where
  "insertBy cmp x [] = [x]"
| "insertBy cmp x (y # ys) = (if cmp x y \<le> 0 then x # y # ys else y # insertBy cmp x ys)"

definition sortBy :: "('a \<Rightarrow> 'a \<Rightarrow> int) \<Rightarrow> 'a list \<Rightarrow> 'a list" where
  "sortBy cmp xs = foldr (insertBy cmp) xs []"

section \<open>The fingerprint of the data\<close>

text \<open>
  \<^verbatim>\<open>JSON.stringify\<close> writes a JSON text; two texts it writes are equal exactly when the
  values are. The model keeps the value, as a tree, in place of its text. In an object,
  \<^verbatim>\<open>JSON.stringify\<close> leaves out a property whose value is \<^verbatim>\<open>undefined\<close> and writes null
  for one that is null.
\<close>

datatype json = JNull | JString string | JArray "json list" | JObject "(string \<times> json) list"

definition property :: "string \<Rightarrow> jsstr \<Rightarrow> (string \<times> json) list" where
  "property k v =
     (case v of Undefined \<Rightarrow> [] | Null \<Rightarrow> [(k, JNull)] | Str s \<Rightarrow> [(k, JString s)])"

record 'e data =
  airdrops :: "'e airdrop_scheme list option"

text \<open>
  The payload: the body of the upstream's answer, and what the server caches and sends.
  \<open>airdrops\<close> is \<open>None\<close> when the body has no such property; the other properties of the
  body are the record's extension.
\<close>

definition generateDataHash :: "('e, 'd) data_scheme option \<Rightarrow> json option" where
  "generateDataHash dt =
     (case dt of
        None \<Rightarrow> None
      | Some d \<Rightarrow>
          (case airdrops d of
             None \<Rightarrow> None
           | Some as \<Rightarrow>
               Some (JArray
                 (map (\<lambda>airdrop.
                    JObject (property ''token'' (token airdrop)
                             @ property ''status'' (status airdrop)
                             @ property ''date'' (date airdrop)
                             @ property ''time'' (time airdrop))) as))))"

text \<open>
  \<open>detectDataChanges previousDataHash newData\<close> returns the answer and the new value of the
  global \<^verbatim>\<open>previousDataHash\<close>. A stored hash is a non-empty string, hence truthy.
\<close>

definition detectDataChanges ::
  "json option \<Rightarrow> ('e, 'd) data_scheme option \<Rightarrow> bool \<times> json option"
where
  "detectDataChanges previousDataHash newData =
     (let newHash = generateDataHash newData
      in if previousDataHash \<noteq> None \<and> newHash \<noteq> previousDataHash then (True, previousDataHash)
         else (False, newHash))"

section \<open>Fetching and the cache\<close>

text \<open>
  \<open>fetchDataFromAPI h now upstream\<close>: \<open>upstream\<close> is what the GET of line 102 delivers, an
  error or the body of the answer; \<open>now\<close> is the instant at which the body is processed.
  Every exception is caught at line 141 and thrown again inside a new Error.
\<close>

definition fetchDataFromAPI ::
  "'h host_scheme \<Rightarrow> int \<Rightarrow> js_error + ('e, 'd) data_scheme \<Rightarrow> js_error + ('e, 'd) data_scheme"
where
  "fetchDataFromAPI h now upstream =
     (case upstream of
        Inl err \<Rightarrow> Inl (Wrapped err)
      | Inr body \<Rightarrow>
          (case airdrops body of
             None \<Rightarrow> Inl (Wrapped TypeError)
           | Some as \<Rightarrow>
               (case processAirdropStatus h now as of
                  Inl err \<Rightarrow> Inl (Wrapped err)
                | Inr processedAirdrops \<Rightarrow>
                    Inr (body\<lparr>airdrops := Some (sortBy (compareAirdrops h) processedAirdrops)\<rparr>))))"

text \<open>The three globals of lines 12 to 14.\<close>

record ('e, 'd) server =
  cachedData :: "('e, 'd) data_scheme option"
  lastFetchTime :: "int option"
  previousDataHash :: "json option"

text \<open>
  What the route answers: the payload as it is, the payload with \<^verbatim>\<open>hasChanges\<close> and
  \<^verbatim>\<open>lastUpdateTime\<close> added, or status 500 with the error and a timestamp.
\<close>

datatype ('e, 'd) response =
    Body "('e, 'd) data_scheme"
  | BodyWithChanges "('e, 'd) data_scheme" bool string
  | Status500 js_error string

text \<open>
  Lines 162 to 181 and 183 to 221. \<open>now\<close> is the instant of the request (line 186) and
  \<open>later\<close> the instant at which the upstream has answered, where the rest of the handler
  reads the clock. Each function returns the new globals and the number of GETs sent to
  the upstream; the route returns its answer first.
\<close>

definition updateData ::
  "'h host_scheme \<Rightarrow> int \<Rightarrow> js_error + ('e, 'd) data_scheme \<Rightarrow> ('e, 'd) server
   \<Rightarrow> ('e, 'd) server \<times> nat"
where
  "updateData h later upstream st =
     (case fetchDataFromAPI h later upstream of
        Inl err \<Rightarrow> (st, 1)
      | Inr d \<Rightarrow>
          (case detectDataChanges (previousDataHash st) (Some d) of
             (hasChanges, hash) \<Rightarrow>
               (st\<lparr>cachedData := Some d, lastFetchTime := Some later,
                   previousDataHash := hash\<rparr>, 1)))"

text \<open>Lines 191 to 220: the route when the cache does not answer.\<close>

definition fetchFresh ::
  "'h host_scheme \<Rightarrow> int \<Rightarrow> js_error + ('e, 'd) data_scheme \<Rightarrow> ('e, 'd) server
   \<Rightarrow> ('e, 'd) response \<times> ('e, 'd) server \<times> nat"
where
  "fetchFresh h later upstream st =
     (case fetchDataFromAPI h later upstream of
        Inl err \<Rightarrow> (Status500 err (isoString later), st, 1)
      | Inr d \<Rightarrow>
          (case detectDataChanges (previousDataHash st) (Some d) of
             (hasChanges, hash) \<Rightarrow>
               (BodyWithChanges d hasChanges (isoString later),
                st\<lparr>cachedData := Some d, lastFetchTime := Some later,
                   previousDataHash := hash\<rparr>,
                1)))"

definition fetchData ::
  "'h host_scheme \<Rightarrow> int \<Rightarrow> int \<Rightarrow> js_error + ('e, 'd) data_scheme \<Rightarrow> ('e, 'd) server
   \<Rightarrow> ('e, 'd) response \<times> ('e, 'd) server \<times> nat"
where
  "fetchData h now later upstream st =
     (case (cachedData st, lastFetchTime st) of
        (Some c, Some t) \<Rightarrow>
          (if now - t < 5 * 60 * 1000 then (Body c, st, 0)
           else fetchFresh h later upstream st)
      | _ \<Rightarrow> fetchFresh h later upstream st)"

section \<open>Hosts and events of the examples\<close>

text \<open>
  A sort key for the examples: one weight for each character, the hyphen first, then the
  colon, then the digits in their order, as the collation of V8 has them. The examples
  compare no string with any other character.
\<close>

definition weight :: "char \<Rightarrow> nat" where
  "weight c =
     (if c = CHR ''-'' then 0
      else if c = CHR '':'' then 1
      else if 48 \<le> (of_char c :: nat) \<and> (of_char c :: nat) \<le> 57 then of_char c - 46
      else 12 + of_char c)"

definition digitsKey :: "string \<Rightarrow> nat list" where
  "digitsKey s = map weight s"

definition hostShanghai :: host where
  "hostShanghai =
     \<lparr>tzMinutes = 480, legacyParse = (\<lambda>s. None), numberOther = (\<lambda>s. NaN),
      collationKey = digitsKey\<rparr>"

definition hostNewYork :: host where
  "hostNewYork =
     \<lparr>tzMinutes = - 300, legacyParse = (\<lambda>s. None), numberOther = (\<lambda>s. NaN),
      collationKey = digitsKey\<rparr>"

text \<open>
  Two hosts: China Standard Time (UTC+8) and Eastern Standard Time (UTC-5). Their
  \<^verbatim>\<open>Date.parse\<close> takes the two ISO forms only and their \<^verbatim>\<open>Number\<close> plain digits only. The
  examples give them no other string, but for \<^verbatim>\<open>not-a-date\<close> and \<^verbatim>\<open>not-a-dateT00:00\<close>,
  which V8 reads as an Invalid Date too.
\<close>

definition event :: "string \<Rightarrow> int option \<Rightarrow> jsstr \<Rightarrow> jsstr \<Rightarrow> string \<Rightarrow> airdrop" where
  "event tok ph d t st =
     \<lparr>token = Str tok, phase = ph, date = d, time = t, status = Str st,
      original_status = Undefined\<rparr>"

definition twoEvents :: "airdrop list" where
  "twoEvents =
     [event ''AAA'' None (Str ''2024-01-02'') Null ''announced'',
      event ''BBB'' None (Str ''2024-01-01'') (Str ''23:00'') ''announced'']"

text \<open>
  A server that fetched \<open>twoEvents\<close> at 2024-01-02T15:00:00Z.
\<close>

definition cachedServer :: "(unit, unit) server" where
  "cachedServer =
     \<lparr>cachedData = Some \<lparr>airdrops = Some twoEvents\<rparr>,
      lastFetchTime = Some 1704207600000,
      previousDataHash = generateDataHash (Some \<lparr>airdrops = Some twoEvents\<rparr>)\<rparr>"

section \<open>Notions of the specification\<close>

text \<open>The four fields of an event that the fingerprint is made of.\<close>

definition fingerprintFields ::
  "'a airdrop_scheme \<Rightarrow> jsstr \<times> jsstr \<times> jsstr \<times> jsstr"
where
  "fingerprintFields a = (token a, status a, date a, time a)"

text \<open>
  The resolver at one event, evaluated at the instant \<open>now\<close>: the callback of
  \<open>processAirdropStatus\<close> with the \<open>today\<close> of that instant.
\<close>

definition resolve :: "'h host_scheme \<Rightarrow> int \<Rightarrow> 'a airdrop_scheme \<Rightarrow> js_error + 'a airdrop_scheme" where
  "resolve h now airdrop = processAirdrop h (midnight h (Some now)) now airdrop"

text \<open>
  The order of the specification: \<open>mayPrecede a b\<close> says that \<open>a\<close> may stand before \<open>b\<close>.
  Dates go down; on one date an event without a time may stand before every event, and
  an event with a time before the events with a time that is not later. An event without
  a date counts with the empty string as its date.
\<close>

definition mayPrecede :: "'a airdrop_scheme \<Rightarrow> 'a airdrop_scheme \<Rightarrow> bool" where
  "mayPrecede a b =
     (strOf (date b) < strOf (date a)
      \<or> (strOf (date a) = strOf (date b)
          \<and> (\<not> truthy (time a) \<or> (truthy (time b) \<and> strOf (time b) \<le> strOf (time a)))))"

text \<open>
  The calendar day of a date \<^verbatim>\<open>YYYY-MM-DD\<close>, as a day number; the day of an instant on
  the clock of the host; and the instant of a time of day \<^verbatim>\<open>HH:MM\<close> on a day of the
  host's calendar, where a component that is missing or not a number counts as 0 (there is
  no such instant when a component is infinite or the instant is beyond what a Date holds).
\<close>

definition calendarDay :: "string \<Rightarrow> int option" where
  "calendarDay d =
     (case isoDate d of Some (y, m, dd) \<Rightarrow> Some (MakeDay y (m - 1) dd) | None \<Rightarrow> None)"

definition localDay :: "'h host_scheme \<Rightarrow> int \<Rightarrow> int" where
  "localDay h now = Day (LocalTime h now)"

definition effectiveInstant :: "'h host_scheme \<Rightarrow> int \<Rightarrow> string \<Rightarrow> int option" where
  "effectiveInstant h n t =
     (let parts = map (Number h) (splitOn CHR '':'' t)
      in case (orZero (nthOpt parts 0), orZero (nthOpt parts 1)) of
           (Fin hh, Fin mm) \<Rightarrow>
             TimeClip (UTC h (n * msPerDay + hh * msPerHour + mm * msPerMinute))
         | _ \<Rightarrow> None)"




section \<open>The change tracker\<close>

lemma property_inj:
  "property ''token'' a1 @ property ''status'' a2 @ property ''date'' a3 @ property ''time'' a4
   = property ''token'' b1 @ property ''status'' b2 @ property ''date'' b3 @ property ''time'' b4
   \<longleftrightarrow> a1 = b1 \<and> a2 = b2 \<and> a3 = b3 \<and> a4 = b4"
proof -
  have 1: "property ''time'' a @ r = property ''time'' b @ r' \<longleftrightarrow> a = b \<and> r = r'"
    if "r = []" "r' = []" for a b and r r' :: "(string \<times> json) list"
    using that by (auto simp: property_def split: jsstr.splits)
  have 2: "property ''date'' a @ property ''time'' c @ r = property ''date'' b @ property ''time'' d @ r'
           \<longleftrightarrow> a = b \<and> property ''time'' c @ r = property ''time'' d @ r'"
    if "r = []" "r' = []" for a b c d and r r' :: "(string \<times> json) list"
    using that by (auto simp: property_def split: jsstr.splits)
  have 3: "property ''status'' a @ property ''date'' c @ r = property ''status'' b @ property ''date'' d @ r'
           \<longleftrightarrow> a = b \<and> property ''date'' c @ r = property ''date'' d @ r'"
    if "\<forall>x\<in>set r. fst x = ''time''" "\<forall>x\<in>set r'. fst x = ''time''"
    for a b c d and r r' :: "(string \<times> json) list"
    using that by (cases r; cases r') (auto simp: property_def split: jsstr.splits)
  have 4: "property ''token'' a @ property ''status'' c @ r = property ''token'' b @ property ''status'' d @ r'
           \<longleftrightarrow> a = b \<and> property ''status'' c @ r = property ''status'' d @ r'"
    if "\<forall>x\<in>set r. fst x = ''date'' \<or> fst x = ''time''"
       "\<forall>x\<in>set r'. fst x = ''date'' \<or> fst x = ''time''"
    for a b c d and r r' :: "(string \<times> json) list"
    using that by (cases r; cases r') (auto simp: property_def split: jsstr.splits)
  have keys: "\<forall>x\<in>set (property k v). fst x = k" for k v
    by (auto simp: property_def split: jsstr.splits)
  have "property ''token'' a1 @ property ''status'' a2 @ (property ''date'' a3 @ property ''time'' a4)
        = property ''token'' b1 @ property ''status'' b2 @ (property ''date'' b3 @ property ''time'' b4)
        \<longleftrightarrow> a1 = b1 \<and> property ''status'' a2 @ (property ''date'' a3 @ property ''time'' a4)
                        = property ''status'' b2 @ (property ''date'' b3 @ property ''time'' b4)"
    by (rule 4) (use keys in auto)
  moreover have "property ''status'' a2 @ property ''date'' a3 @ property ''time'' a4
        = property ''status'' b2 @ property ''date'' b3 @ property ''time'' b4
        \<longleftrightarrow> a2 = b2 \<and> property ''date'' a3 @ property ''time'' a4
                        = property ''date'' b3 @ property ''time'' b4"
    by (rule 3) (use keys in auto)
  moreover have "property ''date'' a3 @ property ''time'' a4 @ []
        = property ''date'' b3 @ property ''time'' b4 @ []
        \<longleftrightarrow> a3 = b3 \<and> property ''time'' a4 @ [] = property ''time'' b4 @ []"
    by (rule 2) simp_all
  moreover have "property ''time'' a4 @ [] = property ''time'' b4 @ [] \<longleftrightarrow> a4 = b4 \<and> [] = ([] :: (string \<times> json) list)"
    by (rule 1) simp_all
  ultimately show ?thesis by simp
qed

lemma generateDataHash_eq_iff:
  "generateDataHash (Some d) = generateDataHash (Some d') \<longleftrightarrow>
   map_option (map fingerprintFields) (airdrops d) = map_option (map fingerprintFields) (airdrops d')"
proof -
  have eq: "(map (\<lambda>airdrop. JObject (property ''token'' (token airdrop)
                             @ property ''status'' (status airdrop)
                             @ property ''date'' (date airdrop)
                             @ property ''time'' (time airdrop))) xs
         = map (\<lambda>airdrop. JObject (property ''token'' (token airdrop)
                             @ property ''status'' (status airdrop)
                             @ property ''date'' (date airdrop)
                             @ property ''time'' (time airdrop))) ys)
        \<longleftrightarrow> map fingerprintFields xs = map fingerprintFields ys"
    for xs :: "'a airdrop_scheme list" and ys :: "'c airdrop_scheme list"
  proof (induction xs arbitrary: ys)
    case Nil
    then show ?case by auto
  next
    case (Cons x xs)
    then show ?case by (cases ys) (auto simp: fingerprintFields_def property_inj)
  qed
  show ?thesis
    by (auto simp: generateDataHash_def eq split: option.splits)
qed

text \<open>
  C8. \<open>detectDataChanges\<close>, from the stored fingerprint and the new data, to the answer and
  the fingerprint stored afterwards: with nothing stored it stores the new fingerprint and
  answers false; with \<open>p\<close> stored it answers false when the new fingerprint is \<open>p\<close> and true
  when it is not, and \<open>p\<close> stays stored in both cases. Two fingerprints are equal exactly
  when the lists of (token, status, date, time) are, where each of the four is absent,
  null or a string. Hence, starting with nothing stored,
  a collection gives false, the same collection again gives false, and the collection with
  the status of one event changed gives true (and the first fingerprint is still the one
  stored).
\<close>

theorem detectDataChanges_cases:
  assumes "airdrops d = Some as" and "i < length as" and "s \<noteq> status (as ! i)"
  shows "detectDataChanges None newData = (False, generateDataHash newData)
       \<and> detectDataChanges (Some p) newData =
           (if generateDataHash newData = Some p then (False, Some p) else (True, Some p))
       \<and> (generateDataHash (Some d1) = generateDataHash (Some d2) \<longleftrightarrow>
            map_option (map fingerprintFields) (airdrops d1)
            = map_option (map fingerprintFields) (airdrops d2))
       \<and> (case detectDataChanges None (Some d) of
            (r1, h1) \<Rightarrow>
              (case detectDataChanges h1 (Some d) of
                 (r2, h2) \<Rightarrow>
                   (case detectDataChanges h2
                           (Some (d\<lparr>airdrops := Some (as[i := (as ! i)\<lparr>status := s\<rparr>])\<rparr>)) of
                      (r3, h3) \<Rightarrow>
                        r1 = False \<and> r2 = False \<and> r3 = True
                        \<and> h1 = generateDataHash (Some d) \<and> h2 = h1 \<and> h3 = h1)))"
proof -
  let ?d' = "d\<lparr>airdrops := Some (as[i := (as ! i)\<lparr>status := s\<rparr>])\<rparr>"
  have "map fingerprintFields (as[i := (as ! i)\<lparr>status := s\<rparr>]) \<noteq> map fingerprintFields as"
  proof
    assume "map fingerprintFields (as[i := (as ! i)\<lparr>status := s\<rparr>]) = map fingerprintFields as"
    then have "map fingerprintFields (as[i := (as ! i)\<lparr>status := s\<rparr>]) ! i
               = map fingerprintFields as ! i"
      by simp
    with assms(2,3) show False by (simp add: fingerprintFields_def)
  qed
  then have ne: "generateDataHash (Some ?d') \<noteq> generateDataHash (Some d)"
    using assms(1) by (simp add: generateDataHash_eq_iff)
  have some: "generateDataHash (Some d) \<noteq> None"
    using assms(1) by (simp add: generateDataHash_def)
  have 1: "detectDataChanges None newData = (False, generateDataHash newData)"
    by (simp add: detectDataChanges_def)
  have 2: "detectDataChanges (Some p) newData =
           (if generateDataHash newData = Some p then (False, Some p) else (True, Some p))"
    by (simp add: detectDataChanges_def)
  have 4: "(case detectDataChanges None (Some d) of
            (r1, h1) \<Rightarrow>
              (case detectDataChanges h1 (Some d) of
                 (r2, h2) \<Rightarrow>
                   (case detectDataChanges h2 (Some ?d') of
                      (r3, h3) \<Rightarrow>
                        r1 = False \<and> r2 = False \<and> r3 = True
                        \<and> h1 = generateDataHash (Some d) \<and> h2 = h1 \<and> h3 = h1)))"
    using ne some by (auto simp: detectDataChanges_def)
  show ?thesis
    using 1 2 4 generateDataHash_eq_iff[of d1 d2] by blast
qed

theorem detectDataChanges_cases_witness:
  "airdrops \<lparr>airdrops = Some twoEvents\<rparr> = Some twoEvents
   \<and> 1 < length twoEvents
   \<and> Str ''completed'' \<noteq> status (twoEvents ! 1)
   \<and> fst (detectDataChanges None (Some \<lparr>airdrops = Some twoEvents\<rparr>)) = False
   \<and> fst (detectDataChanges (generateDataHash (Some \<lparr>airdrops = Some twoEvents\<rparr>))
             (Some \<lparr>airdrops = Some twoEvents\<rparr>)) = False
   \<and> fst (detectDataChanges (generateDataHash (Some \<lparr>airdrops = Some twoEvents\<rparr>))
             (Some \<lparr>airdrops =
                      Some (twoEvents[1 := (twoEvents ! 1)\<lparr>status := Str ''completed''\<rparr>])\<rparr>))
       = True"
proof -
  have a: "airdrops \<lparr>airdrops = Some twoEvents\<rparr> = Some twoEvents"
    by simp
  have b: "1 < length twoEvents"
    by (simp add: twoEvents_def)
  have c: "Str ''completed'' \<noteq> status (twoEvents ! 1)"
    by (simp add: twoEvents_def event_def)
  have "case detectDataChanges None (Some \<lparr>airdrops = Some twoEvents\<rparr>) of
          (r1, h1) \<Rightarrow>
            (case detectDataChanges h1 (Some \<lparr>airdrops = Some twoEvents\<rparr>) of
               (r2, h2) \<Rightarrow>
                 (case detectDataChanges h2
                         (Some (\<lparr>airdrops = Some twoEvents\<rparr>
                                \<lparr>airdrops :=
                                   Some (twoEvents[1 := (twoEvents ! 1)\<lparr>status := Str ''completed''\<rparr>])\<rparr>)) of
                    (r3, h3) \<Rightarrow>
                      r1 = False \<and> r2 = False \<and> r3 = True
                      \<and> h1 = generateDataHash (Some \<lparr>airdrops = Some twoEvents\<rparr>)
                      \<and> h2 = h1 \<and> h3 = h1))"
    using detectDataChanges_cases
            [OF a b c, where newData = "None :: (unit, unit) data_scheme option" and p = JNull
               and ?d1.0 = "\<lparr>airdrops = Some twoEvents\<rparr>"
               and ?d2.0 = "\<lparr>airdrops = Some twoEvents\<rparr>"]
    by (elim conjE)
  then show ?thesis
    using a b c by (auto split: prod.splits)
qed

text \<open>
  The fingerprint tells a property that is null from one that is absent: after a
  collection with an event whose time is null, the same collection with the time absent
  is reported as a change.
\<close>

lemma null_and_absent_differ:
  "detectDataChanges
     (generateDataHash
        (Some \<lparr>airdrops = Some [event ''AAA'' None (Str ''2024-01-02'') Null ''announced'']\<rparr>))
     (Some \<lparr>airdrops = Some [event ''AAA'' None (Str ''2024-01-02'') Undefined ''announced'']\<rparr>)
   = (True,
      Some (JArray [JObject [(''token'', JString ''AAA''), (''status'', JString ''announced''),
                             (''date'', JString ''2024-01-02''), (''time'', JNull)]]))
   \<and> generateDataHash
        (Some \<lparr>airdrops = Some [event ''AAA'' None (Str ''2024-01-02'') Undefined ''announced'']\<rparr>)
     = Some (JArray [JObject [(''token'', JString ''AAA''), (''status'', JString ''announced''),
                              (''date'', JString ''2024-01-02'')]])"
  by (simp add: detectDataChanges_def generateDataHash_def property_def event_def)

section \<open>The route and its cache\<close>

text \<open>
  C9. When a snapshot is cached and the request comes less than five minutes after the
  snapshot was fetched, the route sends no GET to the upstream, leaves the three globals
  as they are and answers the cached payload as it is, without \<^verbatim>\<open>hasChanges\<close> and
  \<^verbatim>\<open>lastUpdateTime\<close>; a second request within the window gets the same answer. An
  answer that carries the two fields comes from a live refresh: one GET was sent, and the
  payload answered is the one now cached, stamped with the instant of the refresh.
\<close>

theorem fetchData_cache_hit:
  assumes "cachedData st = Some c" and "lastFetchTime st = Some t"
    and "now - t < 5 * 60 * 1000" and "now' - t < 5 * 60 * 1000"
  shows "fetchData h now later upstream st = (Body c, st, 0)
       \<and> fetchData h now' later' upstream' (fst (snd (fetchData h now later upstream st)))
           = (Body c, st, 0)
       \<and> (\<forall>d b stamp. fst (fetchData h n l u st0) = BodyWithChanges d b stamp \<longrightarrow>
             snd (snd (fetchData h n l u st0)) = 1
             \<and> fetchData h n l u st0 = fetchFresh h l u st0
             \<and> cachedData (fst (snd (fetchData h n l u st0))) = Some d
             \<and> lastFetchTime (fst (snd (fetchData h n l u st0))) = Some l
             \<and> stamp = isoString l)"
proof -
  have hit: "fetchData h x later'' upstream'' st = (Body c, st, 0)" if "x - t < 5 * 60 * 1000"
    for x later'' upstream''
    using assms(1,2) that by (simp add: fetchData_def)
  have live: "\<forall>d b stamp. fst (fetchData h n l u st0) = BodyWithChanges d b stamp \<longrightarrow>
             snd (snd (fetchData h n l u st0)) = 1
             \<and> fetchData h n l u st0 = fetchFresh h l u st0
             \<and> cachedData (fst (snd (fetchData h n l u st0))) = Some d
             \<and> lastFetchTime (fst (snd (fetchData h n l u st0))) = Some l
             \<and> stamp = isoString l"
    by (auto simp: fetchData_def fetchFresh_def
             split: sum.splits prod.splits option.splits if_splits)
  show ?thesis
    using hit[OF assms(3)] hit[OF assms(4)] live by simp
qed

theorem fetchData_cache_hit_witness:
  "cachedData cachedServer = Some \<lparr>airdrops = Some twoEvents\<rparr>
   \<and> lastFetchTime cachedServer = Some 1704207600000
   \<and> (1704207660000 :: int) - 1704207600000 < 5 * 60 * 1000
   \<and> (1704207899999 :: int) - 1704207600000 < 5 * 60 * 1000
   \<and> fetchData hostShanghai 1704207660000 1704207661000 (Inl (UpstreamError ''timeout'')) cachedServer
       = (Body \<lparr>airdrops = Some twoEvents\<rparr>, cachedServer, 0)
   \<and> fetchData hostShanghai 1704207899999 1704207900500 (Inr \<lparr>airdrops = Some []\<rparr>) cachedServer
       = (Body \<lparr>airdrops = Some twoEvents\<rparr>, cachedServer, 0)"
proof -
  have a: "cachedData cachedServer = Some \<lparr>airdrops = Some twoEvents\<rparr>"
    by (simp add: cachedServer_def)
  have b: "lastFetchTime cachedServer = Some 1704207600000"
    by (simp add: cachedServer_def)
  have c: "(1704207660000 :: int) - 1704207600000 < 5 * 60 * 1000"
    by simp
  have d: "(1704207899999 :: int) - 1704207600000 < 5 * 60 * 1000"
    by simp
  note w = fetchData_cache_hit [OF a b c d, where h = hostShanghai and later = 1704207661000
         and upstream = "Inl (UpstreamError ''timeout'')" and later' = 1704207900500
         and upstream' = "Inr \<lparr>airdrops = Some []\<rparr>" and n = 0 and l = 0
         and u = "Inl TypeError :: js_error + (unit, unit) data_scheme" and ?st0.0 = cachedServer]
  from w have 1: "fetchData hostShanghai 1704207660000 1704207661000 (Inl (UpstreamError ''timeout'')) cachedServer
       = (Body \<lparr>airdrops = Some twoEvents\<rparr>, cachedServer, 0)"
    by (elim conjE)
  from w have 2: "fetchData hostShanghai 1704207899999 1704207900500 (Inr \<lparr>airdrops = Some []\<rparr>)
       (fst (snd (fetchData hostShanghai 1704207660000 1704207661000 (Inl (UpstreamError ''timeout'')) cachedServer)))
       = (Body \<lparr>airdrops = Some twoEvents\<rparr>, cachedServer, 0)"
    by (elim conjE)
  show ?thesis
    using a b c d 1 2 by simp
qed

section \<open>The resolver\<close>

lemma processAirdropStatus_resolve:
  "processAirdropStatus h now as = mapE (resolve h now) as"
  unfolding processAirdropStatus_def Let_def
  by (induction as) (simp_all add: resolve_def)

lemma statusStage_keeps:
  "date (statusStage h today now u p) = date p \<and> time (statusStage h today now u p) = time p"
  by (simp add: statusStage_def Let_def setStatus_def)

lemma length_pad: "length (pad k n) = k"
  by (induction k arbitrary: n) auto

lemma isoYear_nonempty: "isoYear y \<noteq> []"
proof -
  have "length (isoYear y) \<ge> 4"
    by (simp add: isoYear_def length_pad)
  then show ?thesis by auto
qed

lemma take_isoString_nonempty: "take 10 (isoString t) \<noteq> []"
  using isoYear_nonempty by (simp add: isoString_def split: prod.splits)

lemma timeShift_absent: "\<not> truthy (date a) \<Longrightarrow> timeShift h a = Inr a"
  by (simp add: timeShift_def)

lemma timeShift_truthy:
  assumes "truthy (date a)" and "timeShift h a = Inr p"
  shows "truthy (date p)"
  using assms take_isoString_nonempty
  by (auto simp: timeShift_def Let_def toISOString_def truthy_def
           split: if_splits sum.splits option.splits)

lemma timeShift_status:
  "timeShift h (a\<lparr>status := s\<rparr>) = map_sum id (\<lambda>p. p\<lparr>status := s\<rparr>) (timeShift h a)"
  by (simp add: timeShift_def Let_def split: sum.splits)

lemma timeShift_keeps:
  assumes "timeShift h a = Inr p"
  shows "status p = status a \<and> original_status p = original_status a"
  using assms
  by (auto simp: timeShift_def Let_def split: if_splits sum.splits)

lemma statusStage_absent: "\<not> truthy (date p) \<Longrightarrow> statusStage h today now u p = p"
  by (simp add: statusStage_def)

lemma statusStage_truthy:
  assumes "truthy (date p)"
  shows "statusStage h today now u p = setStatus ''completed'' u p
       \<or> statusStage h today now u p = setStatus ''announced'' u p"
  using assms by (simp add: statusStage_def Let_def)

lemma statusStage_pure:
  assumes "truthy (date p)" and "date p = date q" and "time p = time q"
  shows "status (statusStage h today now u p) = status (statusStage h today now v q)"
  using assms by (simp add: statusStage_def Let_def setStatus_def)

lemma midnight_Some:
  "midnight h (Some n) = TimeClip (Day (LocalTime h n) * msPerDay - tzMinutes h * msPerMinute)"
  by (simp add: midnight_def setHours_def MakeTime_def MakeDate_def UTC_def)

lemma midnight_mono:
  assumes "n1 \<le> n2" and "n2 \<le> 8640000000000000" and "midnight h (Some n1) = Some u1"
  shows "\<exists>u2. midnight h (Some n2) = Some u2 \<and> u1 \<le> u2"
proof -
  define z where "z = tzMinutes h * msPerMinute"
  define f where "f n = ((n + z) div 86400000) * 86400000 - z" for n :: int
  have mid: "midnight h (Some n) = TimeClip (f n)" for n
    by (simp add: midnight_Some f_def z_def Day_def LocalTime_def msPerDay_def)
  have "(n1 + z) div 86400000 \<le> (n2 + z) div 86400000"
    using assms(1) by (intro zdiv_mono1) simp_all
  then have mono: "f n1 \<le> f n2"
    by (simp add: f_def)
  have below: "f n2 \<le> n2"
    by (simp add: f_def)
  from assms(3) have u1: "u1 = f n1" and "\<bar>f n1\<bar> \<le> 8640000000000000"
    by (auto simp: mid TimeClip_def split: if_splits)
  with mono below assms(2) have "\<bar>f n2\<bar> \<le> 8640000000000000"
    by linarith
  then have "midnight h (Some n2) = Some (f n2)"
    by (simp add: mid TimeClip_def)
  with mono u1 show ?thesis by simp
qed

text \<open>
  C3, as the code has it. The claim fails for events without a date: line 63 guards the
  whole status computation, so such an event keeps the status of the upstream. For an
  event with a date (a non-empty string), the status of the result does not depend on the
  status of the upstream: changing that field alone changes neither whether the resolver
  returns nor the status it assigns; and two events that come out with the same effective
  date and time come out with the same status.
\<close>

theorem status_independent_of_upstream:
  assumes "truthy (date a)"
  shows "map_sum id status (resolve h now (a\<lparr>status := s\<rparr>)) = map_sum id status (resolve h now a)
       \<and> (\<forall>b ra rb. resolve h now a = Inr ra \<and> resolve h now b = Inr rb
             \<and> date ra = date rb \<and> time ra = time rb \<longrightarrow> status ra = status rb)"
proof
  show "map_sum id status (resolve h now (a\<lparr>status := s\<rparr>)) = map_sum id status (resolve h now a)"
  proof (cases "timeShift h a")
    case (Inl e)
    then show ?thesis
      by (simp add: resolve_def processAirdrop_def timeShift_status)
  next
    case (Inr p)
    with assms have tp: "truthy (date p)" by (simp add: timeShift_truthy)
    then have "status (statusStage h (midnight h (Some now)) now s (p\<lparr>status := s\<rparr>))
             = status (statusStage h (midnight h (Some now)) now (status a) p)"
      by (intro statusStage_pure) simp_all
    with Inr show ?thesis
      by (simp add: resolve_def processAirdrop_def timeShift_status)
  qed
  show "\<forall>b ra rb. resolve h now a = Inr ra \<and> resolve h now b = Inr rb
             \<and> date ra = date rb \<and> time ra = time rb \<longrightarrow> status ra = status rb"
  proof (intro allI impI, elim conjE)
    fix b ra rb
    assume ra: "resolve h now a = Inr ra" and rb: "resolve h now b = Inr rb"
      and d: "date ra = date rb" and t: "time ra = time rb"
    from ra obtain p where p: "timeShift h a = Inr p"
      and ra': "ra = statusStage h (midnight h (Some now)) now (status a) p"
      by (auto simp: resolve_def processAirdrop_def split: sum.splits)
    from rb obtain q where q: "timeShift h b = Inr q"
      and rb': "rb = statusStage h (midnight h (Some now)) now (status b) q"
      by (auto simp: resolve_def processAirdrop_def split: sum.splits)
    from assms p have tp: "truthy (date p)" by (rule timeShift_truthy)
    from d t ra' rb' have "date p = date q" "time p = time q" by (simp_all add: statusStage_keeps)
    with tp ra' rb' show "status ra = status rb"
      using statusStage_pure by blast
  qed
qed

theorem status_independent_of_upstream_witness:
  "truthy (date (event ''AAA'' None (Str ''2024-01-02'') (Str ''23:00'') ''announced''))
   \<and> map_sum id status
         (resolve hostShanghai 1704207600000
            ((event ''AAA'' None (Str ''2024-01-02'') (Str ''23:00'') ''announced'')
             \<lparr>status := Str ''cancelled''\<rparr>))
       = map_sum id status
           (resolve hostShanghai 1704207600000
              (event ''AAA'' None (Str ''2024-01-02'') (Str ''23:00'') ''announced''))"
proof -
  have a: "truthy (date (event ''AAA'' None (Str ''2024-01-02'') (Str ''23:00'') ''announced''))"
    by (simp add: event_def truthy_def)
  show ?thesis
    using a status_independent_of_upstream [OF a, where h = hostShanghai
               and now = 1704207600000 and s = "Str ''cancelled''"]
    by (elim conjE) simp
qed

theorem upstream_status_passes_without_date:
  "map_sum id (map status)
     (processAirdropStatus hostShanghai 1704207600000
        [event ''AAA'' None Undefined (Str ''10:00'') ''announced'',
         event ''AAA'' None Undefined (Str ''10:00'') ''completed''])
   = Inr [Str ''announced'', Str ''completed'']"
  by code_simp

text \<open>
  C4. For one event on one host, the status never goes back as time advances: when the
  resolver gives completed at \<open>now1\<close>, it gives completed at every later instant \<open>now2\<close>
  (an instant that a Date can hold); in particular never completed first and announced
  later.
\<close>

theorem status_monotonic:
  assumes le: "now1 \<le> now2" and valid: "now2 \<le> 8640000000000000"
    and r1: "resolve h now1 a = Inr r1" and r2: "resolve h now2 a = Inr r2"
  shows "(status r1 = Str ''completed'' \<longrightarrow> status r2 = Str ''completed'')
       \<and> \<not> (status r1 = Str ''completed'' \<and> status r2 = Str ''announced'')"
proof -
  from r1 obtain p where p: "timeShift h a = Inr p"
    and r1': "r1 = statusStage h (midnight h (Some now1)) now1 (status a) p"
    by (auto simp: resolve_def processAirdrop_def split: sum.splits)
  from r2 p have r2': "r2 = statusStage h (midnight h (Some now2)) now2 (status a) p"
    by (auto simp: resolve_def processAirdrop_def split: sum.splits)
  have main: "status r2 = Str ''completed''" if c: "status r1 = Str ''completed''"
  proof (cases "truthy (date p)")
    case False
    with r1' r2' c show ?thesis by (simp add: statusStage_absent)
  next
    case True
    define A where "A = midnight h (Date_parse h (strOf (date p)))"
    define T where "T = setHours h (Date_parse h (strOf (date p)))
        (orZero (nthOpt (map (Number h) (splitOn CHR '':'' (strOf (time p)))) 0))
        (Some (orZero (nthOpt (map (Number h) (splitOn CHR '':'' (strOf (time p)))) 1)))
        (Some (Fin 0)) (Some (Fin 0))"
    have stage: "status (statusStage h today n (status a) p) = Str ''completed'' \<longleftrightarrow>
        dateLess A today \<or> (dateStrictEq A today \<and> truthy (time p) \<and> dateLessEq T (Some n))"
      for today n
      using True by (auto simp: statusStage_def Let_def setStatus_def A_def T_def)
    from c r1' have c1: "dateLess A (midnight h (Some now1))
        \<or> (dateStrictEq A (midnight h (Some now1)) \<and> truthy (time p) \<and> dateLessEq T (Some now1))"
      by (simp add: stage)
    then obtain x u1 where x: "A = Some x" and u1: "midnight h (Some now1) = Some u1"
      and c2: "x < u1 \<or> (x = u1 \<and> truthy (time p) \<and> dateLessEq T (Some now1))"
      by (auto simp: dateLess_def dateStrictEq_def split: option.splits)
    from midnight_mono[OF le valid u1] obtain u2
      where u2: "midnight h (Some now2) = Some u2" and "u1 \<le> u2"
      by blast
    have later: "dateLessEq T (Some now2)" if "dateLessEq T (Some now1)"
      using that le by (auto simp: dateLessEq_def split: option.splits)
    from c2 \<open>u1 \<le> u2\<close> later
    have "x < u2 \<or> (x = u2 \<and> truthy (time p) \<and> dateLessEq T (Some now2))"
      by auto
    then have "dateLess A (midnight h (Some now2))
        \<or> (dateStrictEq A (midnight h (Some now2)) \<and> truthy (time p) \<and> dateLessEq T (Some now2))"
      by (auto simp: x u2 dateLess_def dateStrictEq_def)
    with r2' show ?thesis by (simp add: stage)
  qed
  then show ?thesis by auto
qed

theorem status_monotonic_witness:
  "(1704207600000 :: int) \<le> 1704209400000
   \<and> (1704209400000 :: int) \<le> 8640000000000000
   \<and> map_sum id status
        (resolve hostShanghai 1704207600000
           (event ''AAA'' None (Str ''2024-01-02'') (Str ''23:00'') ''announced''))
       = Inr (Str ''completed'')
   \<and> map_sum id status
        (resolve hostShanghai 1704209400000
           (event ''AAA'' None (Str ''2024-01-02'') (Str ''23:00'') ''announced''))
       = Inr (Str ''completed'')"
proof -
  have a: "(1704207600000 :: int) \<le> 1704209400000"
    by simp
  have b: "(1704209400000 :: int) \<le> 8640000000000000"
    by simp
  have c: "resolve hostShanghai 1704207600000
             (event ''AAA'' None (Str ''2024-01-02'') (Str ''23:00'') ''announced'')
           = Inr ((event ''AAA'' None (Str ''2024-01-02'') (Str ''23:00'') ''announced'')
                  \<lparr>status := Str ''completed'', original_status := Str ''announced''\<rparr>)"
    by code_simp
  have d: "resolve hostShanghai 1704209400000
             (event ''AAA'' None (Str ''2024-01-02'') (Str ''23:00'') ''announced'')
           = Inr ((event ''AAA'' None (Str ''2024-01-02'') (Str ''23:00'') ''announced'')
                  \<lparr>status := Str ''completed'', original_status := Str ''announced''\<rparr>)"
    by code_simp
  show ?thesis
    using a b c d status_monotonic [OF a b c d] by simp
qed

text \<open>
  C5, as the code has it. The claim fails: a date that does not parse is still a non-empty
  string, so line 63 lets the event in; the comparisons of lines 66 and 69 are false on an
  Invalid Date and the event ends in the last branch. For an event that is not of phase 2
  and whose date is a non-empty string that \<^verbatim>\<open>Date.parse\<close> rejects, the resolver does
  not throw; it assigns the status announced and keeps the status of the upstream as
  \<open>original_status\<close>.
\<close>

theorem malformed_date_announced:
  assumes "phase a \<noteq> Some 2" and "truthy (date a)" and "Date_parse h (strOf (date a)) = None"
  shows "resolve h now a = Inr (a\<lparr>status := Str ''announced'', original_status := status a\<rparr>)"
  using assms
  by (simp add: resolve_def processAirdrop_def timeShift_def statusStage_def Let_def
        midnight_def setHours_def dateLess_def dateStrictEq_def setStatus_def)

theorem malformed_date_announced_witness:
  "phase (event ''AAA'' None (Str ''not-a-date'') Undefined ''completed'') \<noteq> Some 2
   \<and> truthy (date (event ''AAA'' None (Str ''not-a-date'') Undefined ''completed''))
   \<and> Date_parse hostShanghai
         (strOf (date (event ''AAA'' None (Str ''not-a-date'') Undefined ''completed''))) = None
   \<and> resolve hostShanghai 1704207600000
         (event ''AAA'' None (Str ''not-a-date'') Undefined ''completed'')
       = Inr ((event ''AAA'' None (Str ''not-a-date'') Undefined ''completed'')
              \<lparr>status := Str ''announced'', original_status := Str ''completed''\<rparr>)"
proof -
  have a: "phase (event ''AAA'' None (Str ''not-a-date'') Undefined ''completed'') \<noteq> Some 2"
    by (simp add: event_def)
  have b: "truthy (date (event ''AAA'' None (Str ''not-a-date'') Undefined ''completed''))"
    by (simp add: event_def truthy_def)
  have c: "Date_parse hostShanghai
             (strOf (date (event ''AAA'' None (Str ''not-a-date'') Undefined ''completed''))) = None"
    by code_simp
  show ?thesis
    using a b c malformed_date_announced [OF a b c, of 1704207600000]
    by (simp add: event_def)
qed

theorem malformed_date_gets_a_status:
  "processAirdropStatus hostShanghai 1704207600000
     [event ''AAA'' None (Str ''not-a-date'') Undefined ''completed'']
   = Inr [(event ''AAA'' None (Str ''not-a-date'') Undefined ''completed'')
           \<lparr>status := Str ''announced'', original_status := Str ''completed''\<rparr>]
   \<and> processAirdropStatus hostShanghai 1704207600000
        [event ''AAA'' None (Str ''not-a-date'') Undefined ''completed'']
      \<noteq> Inr [event ''AAA'' None (Str ''not-a-date'') Undefined ''completed'']"
  by code_simp

text \<open>
  With phase 2 the same date makes the resolver throw: \<^verbatim>\<open>toISOString\<close> at line 57 raises a
  RangeError on the Invalid Date.
\<close>

lemma malformed_date_phase2_throws:
  "processAirdropStatus hostShanghai 1704207600000
     [event ''AAA'' (Some 2) (Str ''not-a-date'') Undefined ''completed'']
   = Inl RangeError"
  by code_simp

text \<open>
  C6, as the code has it. The claim fails for events without a date: line 63 guards every
  assignment to \<open>original_status\<close>, so such an event comes out as it went in. When the
  resolver returns on an event with a date (a non-empty string), \<open>original_status\<close> of the
  result is the status of the upstream, whichever branch was taken; an event without a
  date is returned unchanged.
\<close>

theorem original_status_preserved:
  assumes "resolve h now a = Inr r"
  shows "if truthy (date a) then original_status r = status a else r = a"
proof (cases "truthy (date a)")
  case True
  from assms obtain p where p: "timeShift h a = Inr p"
    and r: "r = statusStage h (midnight h (Some now)) now (status a) p"
    by (auto simp: resolve_def processAirdrop_def split: sum.splits)
  from True p have "truthy (date p)" by (rule timeShift_truthy)
  from statusStage_truthy[OF this, of h "midnight h (Some now)" now "status a"] r True
  show ?thesis by (auto simp: setStatus_def)
next
  case False
  with assms show ?thesis
    by (simp add: resolve_def processAirdrop_def timeShift_absent statusStage_absent)
qed

theorem original_status_preserved_witness:
  "resolve hostShanghai 1704207600000
     (event ''AAA'' (Some 2) (Str ''2024-01-01'') (Str ''10:00'') ''announced'')
   = Inr ((event ''AAA'' (Some 2) (Str ''2024-01-01'') (Str ''04:00'') ''completed'')
          \<lparr>original_status := Str ''announced''\<rparr>)
   \<and> truthy (date (event ''AAA'' (Some 2) (Str ''2024-01-01'') (Str ''10:00'') ''announced''))
   \<and> original_status
        ((event ''AAA'' (Some 2) (Str ''2024-01-01'') (Str ''04:00'') ''completed'')
         \<lparr>original_status := Str ''announced''\<rparr>)
       = status (event ''AAA'' (Some 2) (Str ''2024-01-01'') (Str ''10:00'') ''announced'')"
proof -
  have a: "resolve hostShanghai 1704207600000
             (event ''AAA'' (Some 2) (Str ''2024-01-01'') (Str ''10:00'') ''announced'')
           = Inr ((event ''AAA'' (Some 2) (Str ''2024-01-01'') (Str ''04:00'') ''completed'')
                  \<lparr>original_status := Str ''announced''\<rparr>)"
    by code_simp
  have b: "truthy (date (event ''AAA'' (Some 2) (Str ''2024-01-01'') (Str ''10:00'') ''announced''))"
    by (simp add: event_def truthy_def)
  show ?thesis
    using a b original_status_preserved [OF a] by simp
qed

theorem original_status_absent_without_date:
  "map_sum id (map original_status)
     (processAirdropStatus hostShanghai 1704207600000
        [event ''AAA'' None Undefined (Str ''10:00'') ''announced''])
   = Inr [Undefined]
   \<and> status (event ''AAA'' None Undefined (Str ''10:00'') ''announced'') = Str ''announced''"
  by code_simp

section \<open>The order of the sorted events\<close>
























text \<open>
  Where the collation is not the order character by character the sorted list need not be
  in the order of the specification: on the example host, of two events of one date at
  \<^verbatim>\<open>1:00\<close> and at \<^verbatim>\<open>10:00\<close> the second comes first, the colon collating before the digit,
  while \<^verbatim>\<open>1:00\<close> is the later string character by character.
\<close>

lemma unpadded_times_sort_by_collation:
  "sortBy (compareAirdrops hostShanghai)
     [event ''AAA'' None (Str ''2024-01-02'') (Str ''1:00'') ''announced'',
      event ''BBB'' None (Str ''2024-01-02'') (Str ''10:00'') ''announced'']
   = [event ''BBB'' None (Str ''2024-01-02'') (Str ''10:00'') ''announced'',
      event ''AAA'' None (Str ''2024-01-02'') (Str ''1:00'') ''announced'']
   \<and> \<not> mayPrecede (event ''BBB'' None (Str ''2024-01-02'') (Str ''10:00'') ''announced'')
                    (event ''AAA'' None (Str ''2024-01-02'') (Str ''1:00'') ''announced'')"
  by code_simp



text \<open>What \<open>fetchDataFromAPI\<close> returns is a rearrangement of the resolved events.\<close>

lemma fetchDataFromAPI_sorted:
  assumes "fetchDataFromAPI h now upstream = Inr d"
  shows "\<exists>body as ps. upstream = Inr body \<and> airdrops body = Some as
           \<and> processAirdropStatus h now as = Inr ps
           \<and> d = body\<lparr>airdrops := Some (sortBy (compareAirdrops h) ps)\<rparr>"
  using assms
  by (auto simp: fetchDataFromAPI_def split: sum.splits option.splits)






section \<open>The shift of phase 2\<close>

lemma time_fields:
  "Day L * msPerDay + HourFromTime L * msPerHour + MinFromTime L * msPerMinute
   + SecFromTime L * msPerSecond + msFromTime L = L"
proof -
  define s where "s = L div 1000"
  define m where "m = s div 60"
  define hh where "hh = m div 60"
  define dd where "dd = hh div 24"
  have m: "L div 60000 = m"
    using zdiv_zmult2_eq[of 60 L 1000] by (simp add: m_def s_def)
  have hh: "L div 3600000 = hh"
    using zdiv_zmult2_eq[of 60 L 60000] by (simp add: hh_def m)
  have dd: "L div 86400000 = dd"
    using zdiv_zmult2_eq[of 24 L 3600000] by (simp add: dd_def hh)
  have 1: "L = 1000 * s + L mod 1000"
    by (simp add: s_def)
  have 2: "s = 60 * m + s mod 60"
    by (simp add: m_def)
  have 3: "m = 60 * hh + m mod 60"
    by (simp add: hh_def)
  have 4: "hh = 24 * dd + hh mod 24"
    by (simp add: dd_def)
  have "dd * 86400000 + (hh mod 24) * 3600000 + (m mod 60) * 60000 + (s mod 60) * 1000
        + L mod 1000 = L"
    using 1 2 3 4 by linarith
  then show ?thesis
    by (simp add: Day_def HourFromTime_def MinFromTime_def SecFromTime_def msFromTime_def
          msPerDay_def msPerHour_def msPerMinute_def msPerSecond_def m hh dd s_def)
qed

text \<open>Line 55 moves the instant by exactly 18 hours, whatever the time zone of the host.\<close>

lemma setHours_plus_18:
  "setHours h (Some t) (numPlus (getHours h (Some t)) 18) None None None
   = TimeClip (t + 18 * msPerHour)"
proof -
  have "Day (LocalTime h t) * msPerDay + (HourFromTime (LocalTime h t) + 18) * msPerHour
        + MinFromTime (LocalTime h t) * msPerMinute
        + SecFromTime (LocalTime h t) * msPerSecond + msFromTime (LocalTime h t)
        = LocalTime h t + 18 * msPerHour"
    using time_fields[of "LocalTime h t"] by (simp add: algebra_simps)
  then have "UTC h (MakeDate (Day (LocalTime h t))
               ((HourFromTime (LocalTime h t) + 18) * msPerHour
                + MinFromTime (LocalTime h t) * msPerMinute
                + SecFromTime (LocalTime h t) * msPerSecond + msFromTime (LocalTime h t)))
             = t + 18 * msPerHour"
    by (simp add: UTC_def MakeDate_def LocalTime_def)
  then show ?thesis
    by (simp add: setHours_def getHours_def numPlus_def MakeTime_def Let_def)
qed

text \<open>
  What lines 52 to 60 compute for an event of phase 2 whose date and time parse to the
  instant \<open>t\<close>: the new date is the first ten characters of the ISO string of \<open>t\<close> plus 18
  hours, which is its calendar date in UTC, and the new time is the first five characters
  of its time string, which is its clock time on the host.
\<close>

lemma timeShift_phase2:
  assumes "phase a = Some 2" and "truthy (date a)"
    and "Date_parse h (strOf (date a)
                       @ (if truthy (time a) then ''T'' @ strOf (time a) else ''T00:00''))
         = Some t"
    and "\<bar>t + 18 * msPerHour\<bar> \<le> 8640000000000000"
  shows "timeShift h a =
           Inr (a\<lparr>date := Str (take 10 (isoString (t + 18 * msPerHour))),
                  time := Str (take 5 (toTimeString h (Some (t + 18 * msPerHour))))\<rparr>)"
proof -
  have "setHours h (Some t) (numPlus (getHours h (Some t)) 18) None None None
        = Some (t + 18 * msPerHour)"
    using assms(4) by (simp add: setHours_plus_18 TimeClip_def)
  with assms(1-3) show ?thesis
    by (simp add: timeShift_def Let_def toISOString_def)
qed

text \<open>
  C2 at the example of the claim, on a host at UTC+8 and on a host at UTC-5. The event is
  of phase 2, dated 2024-01-01 at 10:00; 18 hours later it is 04:00 on 2024-01-02 on the
  clock of either host. On the host at UTC+8 that instant is 20:00 of 2024-01-01 in UTC,
  and the code gives the date 2024-01-01 with the time 04:00. On the host at UTC-5 it
  gives 2024-01-02 and 04:00.
\<close>

theorem phase2_date_is_the_utc_date:
  "map_sum id (map (\<lambda>e. (date e, time e)))
     (processAirdropStatus hostShanghai 1704207600000
        [event ''AAA'' (Some 2) (Str ''2024-01-01'') (Str ''10:00'') ''announced''])
   = Inr [(Str ''2024-01-01'', Str ''04:00'')]
   \<and> map_sum id (map (\<lambda>e. (date e, time e)))
       (processAirdropStatus hostNewYork 1704207600000
          [event ''AAA'' (Some 2) (Str ''2024-01-01'') (Str ''10:00'') ''announced''])
     = Inr [(Str ''2024-01-02'', Str ''04:00'')]"
  by code_simp

section \<open>The status and the calendar day\<close>

lemma indexOf_less: "indexOf c xs = Some i \<Longrightarrow> i < length xs"
  by (induction xs arbitrary: i) (auto split: if_splits)

lemma digitVal_less: "digitVal c = Some d \<Longrightarrow> d < 10"
  using indexOf_less[of c "''0123456789''" d] by (simp add: digitVal_def)

lemma decimalFrom_bound: "decimalFrom acc s = Some n \<Longrightarrow> n < (acc + 1) * 10 ^ length s"
proof (induction s arbitrary: acc)
  case Nil
  then show ?case by simp
next
  case (Cons c cs)
  from Cons.prems obtain d where d: "digitVal c = Some d"
    and rest: "decimalFrom (10 * acc + d) cs = Some n"
    by (auto split: option.splits)
  from d have "d < 10" by (rule digitVal_less)
  then have "10 * acc + d + 1 \<le> 10 * (acc + 1)"
    by simp
  then have "(10 * acc + d + 1) * 10 ^ length cs \<le> (10 * (acc + 1)) * 10 ^ length cs"
    by (rule mult_right_mono) simp
  also have "\<dots> = (acc + 1) * 10 ^ length (c # cs)"
    by (simp add: algebra_simps)
  finally have "(10 * acc + d + 1) * 10 ^ length cs \<le> (acc + 1) * 10 ^ length (c # cs)" .
  with Cons.IH[OF rest] show ?case
    by linarith
qed

lemma decimal_bound: "decimal s = Some n \<Longrightarrow> n < 10 ^ length s"
  using decimalFrom_bound[of 0 s n] by (simp add: decimal_def split: if_splits)

lemma isoDate_range:
  assumes "isoDate s = Some (y, m, d)"
  shows "length s = 10 \<and> 0 \<le> y \<and> y \<le> 9999 \<and> 1 \<le> m \<and> m \<le> 12 \<and> 1 \<le> d \<and> d \<le> 31"
proof -
  from assms obtain yn mn dn where len: "length s = 10"
    and y: "decimal (take 4 s) = Some yn" "y = int yn"
    and m: "m = int mn" "1 \<le> mn" "mn \<le> 12" and d: "d = int dn" "1 \<le> dn" "dn \<le> 31"
    by (auto simp: isoDate_def split: if_splits option.splits)
  from decimal_bound[OF y(1)] len have "yn < 10 ^ 4" by simp
  with len y m d show ?thesis by simp
qed

lemma MakeDay_range:
  assumes "0 \<le> y" and "y \<le> 9999" and "1 \<le> m" and "m \<le> 12" and "1 \<le> d" and "d \<le> 31"
  shows "\<bar>MakeDay y (m - 1) d\<bar> \<le> 4000000"
proof -
  define y' where "y' = (if m \<le> 2 then y - 1 else y)"
  define k where "k = (if m > 2 then m - 3 else m + 9)"
  have y': "- 1 \<le> y'" "y' \<le> 9999"
    using assms by (auto simp: y'_def)
  have k: "0 \<le> k" "k \<le> 11"
    using assms by (auto simp: k_def)
  have era: "- 1 \<le> y' div 400" "y' div 400 \<le> 24"
    using zdiv_mono1[of "- 1" y' 400] zdiv_mono1[of y' 9999 400] y' by simp_all
  have yoe: "0 \<le> y' mod 400" "y' mod 400 \<le> 399"
    using pos_mod_bound[of 400 y'] by simp_all
  have q4: "0 \<le> (y' mod 400) div 4" "(y' mod 400) div 4 \<le> 99"
    using zdiv_mono1[of 0 "y' mod 400" 4] zdiv_mono1[of "y' mod 400" 399 4] yoe by simp_all
  have q100: "0 \<le> (y' mod 400) div 100" "(y' mod 400) div 100 \<le> 3"
    using zdiv_mono1[of 0 "y' mod 400" 100] zdiv_mono1[of "y' mod 400" 399 100] yoe by simp_all
  have mp: "0 \<le> (153 * k + 2) div 5" "(153 * k + 2) div 5 \<le> 337"
    using zdiv_mono1[of 0 "153 * k + 2" 5] zdiv_mono1[of "153 * k + 2" 1685 5] k by simp_all
  have m0: "(m - 1) div 12 = 0" "(m - 1) mod 12 + 1 = m"
    using assms by simp_all
  have "MakeDay y (m - 1) d =
          (y' div 400) * 146097
          + ((y' mod 400) * 365 + (y' mod 400) div 4 - (y' mod 400) div 100
             + ((153 * k + 2) div 5 + 1 - 1))
          - 719468 + d - 1"
    by (simp add: MakeDay_def DaysFromCivil_def Let_def m0 y'_def k_def)
  with era yoe q4 q100 mp assms(5,6) show ?thesis
    by linarith
qed

lemma calendarDay_parse:
  assumes "calendarDay d = Some n"
  shows "Date_parse h d = Some (n * msPerDay) \<and> \<bar>n\<bar> \<le> 4000000"
proof -
  from assms obtain y m dd where iso: "isoDate d = Some (y, m, dd)"
    and n: "n = MakeDay y (m - 1) dd"
    by (auto simp: calendarDay_def split: option.splits)
  from isoDate_range[OF iso] have len: "length d = 10"
    and r: "0 \<le> y" "y \<le> 9999" "1 \<le> m" "m \<le> 12" "1 \<le> dd" "dd \<le> 31"
    by simp_all
  have b: "\<bar>n\<bar> \<le> 4000000"
    unfolding n using r by (rule MakeDay_range)
  then have "\<bar>n * msPerDay\<bar> \<le> 8640000000000000"
    by (simp add: msPerDay_def abs_mult)
  with iso len n b show ?thesis
    by (simp add: Date_parse_def MakeDate_def TimeClip_def)
qed

lemma day_of_local_midnight:
  assumes "0 \<le> tzMinutes h" and "tzMinutes h < 1440"
  shows "Day (LocalTime h (n * msPerDay)) = n"
proof -
  have "(tzMinutes h * 60000 + n * 86400000) div 86400000
        = n + (tzMinutes h * 60000) div 86400000"
    by simp
  moreover have "(tzMinutes h * 60000) div 86400000 = 0"
    using assms by (intro div_pos_pos_trivial) simp_all
  ultimately show ?thesis
    by (simp add: Day_def LocalTime_def msPerDay_def msPerMinute_def add.commute)
qed

lemma midnight_of_day:
  assumes "0 \<le> tzMinutes h" and "tzMinutes h < 1440" and "\<bar>n\<bar> \<le> 4000000"
  shows "midnight h (Some (n * msPerDay)) = Some (n * msPerDay - tzMinutes h * msPerMinute)"
proof -
  have "\<bar>n * 86400000 - tzMinutes h * 60000\<bar> \<le> 8640000000000000"
    using assms by (simp add: abs_le_iff)
  then show ?thesis
    using day_of_local_midnight[OF assms(1,2), of n]
    by (simp add: midnight_Some TimeClip_def msPerDay_def msPerMinute_def)
qed

lemma midnight_of_now:
  assumes "0 \<le> tzMinutes h" and "tzMinutes h < 1440"
    and "0 \<le> now" and "now \<le> 8640000000000000"
  shows "midnight h (Some now) = Some (localDay h now * msPerDay - tzMinutes h * msPerMinute)"
proof -
  define z where "z = tzMinutes h * 60000"
  define q where "q = (now + z) div 86400000"
  have z: "0 \<le> z" "z \<le> 86400000"
    using assms(1,2) by (simp_all add: z_def)
  have "0 \<le> q"
    using z assms(3) by (simp add: q_def pos_imp_zdiv_nonneg_iff)
  moreover have "q * 86400000 \<le> now + z"
    by (simp add: q_def)
  ultimately have "\<bar>q * 86400000 - z\<bar> \<le> 8640000000000000"
    using assms(4) z by (simp add: abs_le_iff)
  then show ?thesis
    by (simp add: midnight_Some localDay_def TimeClip_def Day_def LocalTime_def q_def z_def
          msPerDay_def msPerMinute_def)
qed

lemma setHours_effectiveInstant:
  assumes "0 \<le> tzMinutes h" and "tzMinutes h < 1440"
  shows "setHours h (Some (n * msPerDay))
           (orZero (nthOpt (map (Number h) (splitOn CHR '':'' t)) 0))
           (Some (orZero (nthOpt (map (Number h) (splitOn CHR '':'' t)) (Suc 0))))
           (Some (Fin 0)) (Some (Fin 0))
         = effectiveInstant h n t"
  by (simp add: setHours_def effectiveInstant_def MakeTime_def MakeDate_def Let_def
        day_of_local_midnight[OF assms] add.assoc split: jsnum.splits)

lemma dateLessEq_Some: "dateLessEq x (Some n) = (case x of Some i \<Rightarrow> i \<le> n | None \<Rightarrow> False)"
  by (simp add: dateLessEq_def split: option.splits)

lemma statusStage_by_calendar_day:
  assumes tz: "0 \<le> tzMinutes h" "tzMinutes h < 1440"
    and now: "0 \<le> now" "now \<le> 8640000000000000"
    and d: "date p = Str d" "calendarDay d = Some n"
  shows "status (statusStage h (midnight h (Some now)) now u p) =
     Str (if n < localDay h now then ''completed''
          else if n = localDay h now then
            (if truthy (time p) then
               (case effectiveInstant h n (strOf (time p)) of
                  Some i \<Rightarrow> if i \<le> now then ''completed'' else ''announced''
                | None \<Rightarrow> ''announced'')
             else ''announced'')
          else ''announced'')"
proof -
  from d(2) have "isoDate d \<noteq> None"
    by (auto simp: calendarDay_def split: option.splits)
  then have "length d = 10"
    by (auto simp: isoDate_def split: if_splits)
  then have "d \<noteq> []" by auto
  with d(1) have tr: "truthy (date p)" and str: "strOf (date p) = d"
    by (simp_all add: truthy_def strOf_def)
  from calendarDay_parse[OF d(2), of h]
  have parse: "Date_parse h d = Some (n * msPerDay)" and n: "\<bar>n\<bar> \<le> 4000000"
    by simp_all
  have A: "midnight h (Some (n * msPerDay)) = Some (n * msPerDay - tzMinutes h * msPerMinute)"
    using tz n by (rule midnight_of_day)
  have T: "midnight h (Some now)
           = Some (localDay h now * msPerDay - tzMinutes h * msPerMinute)"
    using tz now by (rule midnight_of_now)
  have less: "dateLess (midnight h (Some (n * msPerDay))) (midnight h (Some now))
              \<longleftrightarrow> n < localDay h now"
    unfolding A T by (simp add: dateLess_def msPerDay_def)
  have eq: "dateStrictEq (midnight h (Some (n * msPerDay))) (midnight h (Some now))
              \<longleftrightarrow> n = localDay h now"
    unfolding A T by (simp add: dateStrictEq_def msPerDay_def)
  have stage: "statusStage h (midnight h (Some now)) now u p =
      (if n < localDay h now then setStatus ''completed'' u p
       else if n = localDay h now then
         (if truthy (time p) then
            (if dateLessEq (effectiveInstant h n (strOf (time p))) (Some now)
             then setStatus ''completed'' u p else setStatus ''announced'' u p)
          else setStatus ''announced'' u p)
       else setStatus ''announced'' u p)"
    by (simp add: statusStage_def Let_def tr str parse less eq setHours_effectiveInstant[OF tz])
  show ?thesis
    unfolding stage
    by (simp add: setStatus_def dateLessEq_Some split: option.splits)
qed

text \<open>
  On a host at or east of UTC (offset from 0 to below 24 hours), at an instant \<open>now\<close> from
  1970 on, for an event whose effective date is a well-formed \<^verbatim>\<open>YYYY-MM-DD\<close>, the
  resolver does decide by the calendar day: completed when the day of the date is before
  the day of \<open>now\<close> on the host; on the same day, with a time, completed exactly when the
  instant of that time on that day is at or before \<open>now\<close>; announced on the same day
  without a time and on every later day.
\<close>

lemma status_by_calendar_day:
  assumes "0 \<le> tzMinutes h" and "tzMinutes h < 1440"
    and "0 \<le> now" and "now \<le> 8640000000000000"
    and "resolve h now a = Inr r" and "date r = Str d" and "calendarDay d = Some n"
  shows "status r =
     Str (if n < localDay h now then ''completed''
          else if n = localDay h now then
            (if truthy (time r) then
               (case effectiveInstant h n (strOf (time r)) of
                  Some i \<Rightarrow> if i \<le> now then ''completed'' else ''announced''
                | None \<Rightarrow> ''announced'')
             else ''announced'')
          else ''announced'')"
proof -
  from assms(5) obtain p where r: "r = statusStage h (midnight h (Some now)) now (status a) p"
    by (auto simp: resolve_def processAirdrop_def split: sum.splits)
  from assms(6) have d: "date p = Str d" and t: "time r = time p"
    by (simp_all add: r statusStage_keeps)
  show ?thesis
    unfolding t unfolding r
    using assms(1-4) d assms(7) by (rule statusStage_by_calendar_day)
qed

text \<open>
  C1 on a host at UTC-5, at the instant 2024-01-02T15:00:00Z, which is 10:00 of 2024-01-02
  on the clock of the host. An event of that same day at 23:00, thirteen hours ahead,
  comes out completed: line 64 reads the date as midnight UTC, which is 19:00 of the day
  before on the host, and line 65 moves it to the start of that earlier day. An event of
  the next day at 09:00 comes out completed as well, through the branch of today.
\<close>

theorem event_ahead_completed_west_of_utc:
  "isoString 1704207600000 = ''2024-01-02T15:00:00.000Z''
   \<and> take 5 (toTimeString hostNewYork (Some 1704207600000)) = ''10:00''
   \<and> map_sum id (map status)
       (processAirdropStatus hostNewYork 1704207600000
          [event ''AAA'' None (Str ''2024-01-02'') (Str ''23:00'') ''announced'',
           event ''BBB'' None (Str ''2024-01-03'') (Str ''09:00'') ''announced''])
     = Inr [Str ''completed'', Str ''completed'']"
  by code_simp

end
